theory Spec2Isabelle
  imports Main "HOL-Library.Char_ord" "HOL-Library.List_Lexorder" "HOL-Library.AList"
begin

section \<open>Strings\<close>

text \<open>
  Python strings are modelled as \<^typ>\<open>string\<close>. The model covers ASCII text: the character
  classes and the case mapping below are Python's on the code points 0 to 127, and every
  other character is an opaque symbol that is neither a letter, a digit nor white space.
  With \<open>Char_ord\<close> and \<open>List_Lexorder\<close> the order on \<^typ>\<open>string\<close> is the lexicographic
  order by character code, which is the order of Python's \<open>sorted\<close> on strings.
\<close>

definition upper_char :: "char \<Rightarrow> char" where
  "upper_char c =
     (case map_of (zip ''abcdefghijklmnopqrstuvwxyz'' ''ABCDEFGHIJKLMNOPQRSTUVWXYZ'') c of
        Some u \<Rightarrow> u
      | None \<Rightarrow> c)"

definition upper :: "string \<Rightarrow> string" where
  \<comment> \<open>\<open>str.upper()\<close>\<close>
  "upper s = map upper_char s"

section \<open>Regular expressions\<close>

definition is_space :: "char \<Rightarrow> bool" where
  \<comment> \<open>\<open>\s\<close>, and the characters that \<open>str.strip()\<close> removes\<close>
  "is_space c = (c \<in> set [CHR 0x09, CHR 0x0A, CHR 0x0B, CHR 0x0C, CHR 0x0D,
                            CHR 0x1C, CHR 0x1D, CHR 0x1E, CHR 0x1F, CHR 0x20])"

definition is_digit :: "char \<Rightarrow> bool" where
  \<comment> \<open>\<open>\d\<close>\<close>
  "is_digit c = (c \<in> set ''0123456789'')"

definition is_word :: "char \<Rightarrow> bool" where
  \<comment> \<open>\<open>\w\<close>\<close>
  "is_word c = (c \<in> set ''abcdefghijklmnopqrstuvwxyzABCDEFGHIJKLMNOPQRSTUVWXYZ0123456789_'')"

definition any_char :: "char \<Rightarrow> bool" where
  \<comment> \<open>\<open>.\<close> under \<open>re.DOTALL\<close>\<close>
  "any_char c = True"

definition not_char :: "char \<Rightarrow> char \<Rightarrow> bool" where
  \<comment> \<open>\<open>[^x]\<close>; \<open>.\<close> without \<open>re.DOTALL\<close> is \<open>[^\n]\<close>\<close>
  "not_char x c = (c \<noteq> x)"

datatype quant = Greedy | Lazy

datatype rx =
    Lit string
  | Rep quant "char \<Rightarrow> bool" nat "nat option"
  | Seq rx rx
  | Alt rx rx
  | Grp nat rx
  | Ahead rx
  | Eos

type_synonym groups = "nat \<rightharpoonup> string"

fun starts_with :: "string \<Rightarrow> string \<Rightarrow> bool" where
  \<comment> \<open>\<open>s.startswith(l)\<close>\<close>
  "starts_with [] s = True"
| "starts_with (c # l) [] = False"
| "starts_with (c # l) (d # s) = (c = d \<and> starts_with l s)"

primrec m :: "rx \<Rightarrow> string \<times> groups \<Rightarrow> (string \<times> groups) list" where
  "m (Lit l) st = (if starts_with l (fst st) then [(drop (length l) (fst st), snd st)] else [])"
| "m (Rep q p lo hi) st =
     (let n = length (takeWhile p (fst st));
          top = (case hi of None \<Rightarrow> n | Some h \<Rightarrow> min n h);
          counts = (case q of Greedy \<Rightarrow> rev [lo ..< Suc top] | Lazy \<Rightarrow> [lo ..< Suc top])
      in map (\<lambda>k. (drop k (fst st), snd st)) counts)"
| "m (Seq r1 r2) st = concat (map (m r2) (m r1 st))"
| "m (Alt r1 r2) st = m r1 st @ m r2 st"
| "m (Grp i r) st =
     map (\<lambda>(s', g). (s', g(i \<mapsto> take (length (fst st) - length s') (fst st)))) (m r st)"
| "m (Ahead r) st = (if m r st = [] then [] else [st])"
| "m Eos st = (if fst st = [] \<or> fst st = [CHR 0x0A] then [st] else [])"

definition seq :: "rx list \<Rightarrow> rx" where
  "seq rs = foldr Seq rs (Lit [])"

record match_obj =
  m_start :: string
  m_text :: string
  m_groups :: groups
  m_rest :: string

definition group :: "match_obj \<Rightarrow> nat \<Rightarrow> string" where
  "group mo k = (case m_groups mo k of Some t \<Rightarrow> t | None \<Rightarrow> [])"

definition re_match :: "rx \<Rightarrow> string \<Rightarrow> match_obj option" where
  "re_match r s =
     (case m r (s, Map.empty) of
        [] \<Rightarrow> None
      | (s', g) # _ \<Rightarrow>
          Some \<lparr> m_start = [], m_text = take (length s - length s') s, m_groups = g, m_rest = s' \<rparr>)"

fun search :: "rx \<Rightarrow> string \<Rightarrow> match_obj option" where
  "search r [] = re_match r []"
| "search r (x # xs) =
     (case re_match r (x # xs) of
        Some mo \<Rightarrow> Some mo
      | None \<Rightarrow> map_option (\<lambda>mo. mo\<lparr>m_start := x # m_start mo\<rparr>) (search r xs))"

lemma m_suffix: "(s', g') \<in> set (m r (s, g)) \<Longrightarrow> \<exists>w. s = w @ s'"
proof (induction r arbitrary: s g s' g')
  case (Lit l)
  then show ?case
    by (auto split: if_splits intro: append_take_drop_id[symmetric])
next
  case (Rep q p lo hi)
  then show ?case
    by (auto simp: Let_def intro: append_take_drop_id[symmetric])
next
  case (Seq r1 r2)
  then show ?case by fastforce
next
  case (Alt r1 r2)
  then show ?case by auto
next
  case (Grp i r)
  then show ?case by auto
next
  case (Ahead r)
  then show ?case by (auto split: if_splits)
next
  case Eos
  then show ?case by (auto split: if_splits)
qed

lemma re_match_parts:
  "re_match r s = Some mo \<Longrightarrow> m_start mo = [] \<and> s = m_text mo @ m_rest mo"
proof -
  assume a: "re_match r s = Some mo"
  then obtain s' g rest where ms: "m r (s, Map.empty) = (s', g) # rest"
    and mo: "mo = \<lparr> m_start = [], m_text = take (length s - length s') s, m_groups = g, m_rest = s' \<rparr>"
    by (auto simp: re_match_def split: list.splits)
  from ms have "(s', g) \<in> set (m r (s, Map.empty))" by simp
  from m_suffix[OF this] obtain w where "s = w @ s'" by blast
  with mo show ?thesis by simp
qed

lemma search_parts:
  "search r s = Some mo \<Longrightarrow> s = m_start mo @ m_text mo @ m_rest mo"
proof (induction s arbitrary: mo)
  case Nil
  then show ?case using re_match_parts[of r "[]" mo] by simp
next
  case (Cons x xs)
  show ?case
  proof (cases "re_match r (x # xs)")
    case None
    with Cons.prems obtain mo' where "search r xs = Some mo'" "mo = mo'\<lparr>m_start := x # m_start mo'\<rparr>"
      by auto
    with Cons.IH[of mo'] show ?thesis by simp
  next
    case (Some a)
    with Cons.prems re_match_parts[of r "x # xs" mo] show ?thesis by simp
  qed
qed

text \<open>
  The matches that \<open>re.sub\<close>, \<open>re.findall\<close>, \<open>re.split\<close> and \<open>str.split\<close> work on: the
  leftmost match, then the leftmost match in the text after it, and so on. In each match
  \<open>m_start\<close> is the text between the end of the previous match and its own start. No
  pattern of the two scripts can match the empty string (\<open>never_empty\<close> below holds of each
  of them), so the iteration never meets an empty match; the model ends it there.
\<close>

function finditer :: "rx \<Rightarrow> string \<Rightarrow> match_obj list" where
  "finditer r s =
     (case search r s of
        None \<Rightarrow> []
      | Some mo \<Rightarrow> mo # (if m_text mo = [] then [] else finditer r (m_rest mo)))"
  by pat_completeness auto
termination
proof (relation "measure (\<lambda>(r, s). length s)", goal_cases)
  case 1
  then show ?case by simp
next
  case (2 r s mo)
  then show ?case using search_parts[of r s mo] by (cases "m_text mo") auto
qed

declare finditer.simps [simp del]

primrec never_empty :: "rx \<Rightarrow> bool" where
  "never_empty (Lit l) = (l \<noteq> [])"
| "never_empty (Rep q p lo hi) = (0 < lo)"
| "never_empty (Seq r1 r2) = (never_empty r1 \<or> never_empty r2)"
| "never_empty (Alt r1 r2) = (never_empty r1 \<and> never_empty r2)"
| "never_empty (Grp i r) = never_empty r"
| "never_empty (Ahead r) = False"
| "never_empty Eos = False"

definition rest_after :: "match_obj list \<Rightarrow> string \<Rightarrow> string" where
  \<comment> \<open>the text after the last match\<close>
  "rest_after ms s = (if ms = [] then s else m_rest (last ms))"

definition re_sub :: "rx \<Rightarrow> (match_obj \<Rightarrow> string) \<Rightarrow> string \<Rightarrow> string" where
  \<comment> \<open>\<open>re.sub(pattern, repl, s)\<close>; \<open>repl\<close> is the replacement template as a function of
      the match\<close>
  "re_sub r repl s =
     (let ms = finditer r s
      in concat (map (\<lambda>mo. m_start mo @ repl mo) ms) @ rest_after ms s)"

definition re_findall :: "rx \<Rightarrow> string \<Rightarrow> string list" where
  \<comment> \<open>\<open>re.findall(pattern, s)\<close> for a pattern with one group: the list of the group's texts\<close>
  "re_findall r s = map (\<lambda>mo. group mo 1) (finditer r s)"

definition re_split :: "rx \<Rightarrow> string \<Rightarrow> string list" where
  \<comment> \<open>\<open>re.split(pattern, s)\<close> for a pattern with one group: the pieces between the matches,
      with the group's text after each piece but the last\<close>
  "re_split r s =
     (let ms = finditer r s
      in concat (map (\<lambda>mo. [m_start mo, group mo 1]) ms) @ [rest_after ms s])"

definition str_split :: "string \<Rightarrow> string \<Rightarrow> string list" where
  \<comment> \<open>\<open>s.split(sep)\<close> for a separator that is not empty\<close>
  "str_split sep s = (let ms = finditer (Lit sep) s in map m_start ms @ [rest_after ms s])"

definition strip :: "string \<Rightarrow> string" where
  \<comment> \<open>\<open>s.strip()\<close>\<close>
  "strip s = rev (dropWhile is_space (rev (dropWhile is_space s)))"

definition contains :: "string \<Rightarrow> string \<Rightarrow> bool" where
  \<comment> \<open>\<open>sub in s\<close>\<close>
  "contains sub s = (search (Lit sub) s \<noteq> None)"

definition int_of_digits :: "string \<Rightarrow> int" where
  \<comment> \<open>\<open>int(s)\<close> for a string of decimal digits\<close>
  "int_of_digits s =
     foldl (\<lambda>a c. 10 * a + (case map_of (zip ''0123456789'' [0, 1, 2, 3, 4, 5, 6, 7, 8, 9]) c of
                                Some d \<Rightarrow> d
                              | None \<Rightarrow> 0)) 0 s"

section \<open>Data model of \<open>validate_inventory.py\<close>\<close>

datatype py_error =
    KeyError string
  | AttributeError
  | FileNotFoundError string
  | ZeroDivisionError

text \<open>
  A product is a Python dict with the optional keys \<open>'name'\<close> and \<open>'hcpcs'\<close>; \<open>None\<close> is
  an absent key.
\<close>

record product =
  name :: "string option"
  hcpcs :: "string option"

text \<open>
  The dict that both parsers return for one catalog. \<open>parse_html_file\<close> sets neither
  \<open>'num_unique_hcpcs'\<close> nor \<open>'hcpcs_codes'\<close>; \<open>parse_inventory_before\<close> sets both.
\<close>

record inventory =
  num_categories :: int
  num_products :: int
  num_unique_hcpcs :: "int option"
  categories :: "string list"
  hcpcs_codes :: "string list option"
  products :: "product list"

record comparison =
  file_key :: string  \<comment> \<open>the key \<open>'file'\<close>\<close>
  categories_match :: bool
  products_match :: bool
  missing_categories :: "string list"
  missing_hcpcs :: "string list"
  missing_products :: "string list"
  extra_categories :: "string list"
  extra_hcpcs :: "string list"
  extra_products :: "string list"
  before_num_categories :: int
  after_num_categories :: int
  before_num_products :: int
  after_num_products :: int
  all_match :: bool

section \<open>The extractor: \<open>parse_html_file\<close>\<close>

definition category_pattern :: rx where
  \<comment> \<open>\<open><div class="category-header">\s*([^<]+)\s*</div>\<close>\<close>
  \<open>category_pattern =
     seq [Lit ''<div class="category-header">'', Rep Greedy is_space 0 None,
          Grp 1 (Rep Greedy (not_char CHR ''<'') 1 None), Rep Greedy is_space 0 None,
          Lit ''</div>'']\<close>

definition product_name_pattern :: rx where
  \<comment> \<open>\<open><div class="product-name">([^<]+)</div>\<close>\<close>
  \<open>product_name_pattern =
     seq [Lit ''<div class="product-name">'', Grp 1 (Rep Greedy (not_char CHR ''<'') 1 None),
          Lit ''</div>'']\<close>

definition hcpcs_code_pattern :: rx where
  \<comment> \<open>\<open><span class="hcpcs-code">([^<]+)</span>\<close>\<close>
  \<open>hcpcs_code_pattern =
     seq [Lit ''<span class="hcpcs-code">'', Grp 1 (Rep Greedy (not_char CHR ''<'') 1 None),
          Lit ''</span>'']\<close>

definition parse_card :: "string \<Rightarrow> product list" where
  \<comment> \<open>the body of the loop over the cards (\<open>card\<close> in the source): the product of one card,
      if it has a name\<close>
  "parse_card card_text =
     (case search product_name_pattern card_text of
        None \<Rightarrow> []
      | Some name_match \<Rightarrow>
          [\<lparr> name = Some (strip (group name_match 1)),
             hcpcs = (case search hcpcs_code_pattern card_text of
                        None \<Rightarrow> None
                      | Some hcpcs_match \<Rightarrow> Some (strip (group hcpcs_match 1))) \<rparr>])"

definition parse_html_file :: "string \<Rightarrow> inventory" where
  \<comment> \<open>on the content of the file, which \<open>main\<close> reads\<close>
  \<open>parse_html_file content =
     (let categories = map strip (re_findall category_pattern content);
          card_splits = str_split ''<div class="product-card">'' content;
          products = concat (map parse_card (tl card_splits))
      in \<lparr> num_categories = int (length categories),
           num_products = int (length products),
           num_unique_hcpcs = None,
           categories = categories,
           hcpcs_codes = None,
           products = products \<rparr>)\<close>

section \<open>The snapshot reader: \<open>parse_inventory_before\<close>\<close>

definition section_pattern :: rx where
  \<comment> \<open>\<open>={80,}\nFILE: (catalog_\w+\.html)\n={80,}\<close>\<close>
  "section_pattern =
     seq [Rep Greedy (\<lambda>c. c = CHR ''='') 80 None, Lit ''\<newline>FILE: '',
          Grp 1 (seq [Lit ''catalog_'', Rep Greedy is_word 1 None, Lit ''.html'']),
          Lit ''\<newline>'', Rep Greedy (\<lambda>c. c = CHR ''='') 80 None]"

definition statistics_pattern :: rx where
  \<comment> \<open>\<open>STATISTICS:\s+Total categories: (\d+)\s+Total products: (\d+)\s+Unique HCPCS codes: (\d+)\<close>\<close>
  "statistics_pattern =
     seq [Lit ''STATISTICS:'', Rep Greedy is_space 1 None,
          Lit ''Total categories: '', Grp 1 (Rep Greedy is_digit 1 None), Rep Greedy is_space 1 None,
          Lit ''Total products: '', Grp 2 (Rep Greedy is_digit 1 None), Rep Greedy is_space 1 None,
          Lit ''Unique HCPCS codes: '', Grp 3 (Rep Greedy is_digit 1 None)]"

definition categories_pattern :: rx where
  \<comment> \<open>\<open>CATEGORIES:(.*?)(?=ALL HCPCS CODES|$)\<close> with \<open>re.DOTALL\<close>\<close>
  "categories_pattern =
     seq [Lit ''CATEGORIES:'', Grp 1 (Rep Lazy any_char 0 None),
          Ahead (Alt (Lit ''ALL HCPCS CODES'') Eos)]"

definition category_line_pattern :: rx where
  \<comment> \<open>\<open>\s*\d+\.\s+(.+)\<close>\<close>
  "category_line_pattern =
     seq [Rep Greedy is_space 0 None, Rep Greedy is_digit 1 None, Lit ''.'',
          Rep Greedy is_space 1 None, Grp 1 (Rep Greedy (not_char CHR 0x0A) 1 None)]"

definition hcpcs_section_pattern :: rx where
  \<comment> \<open>\<open>ALL HCPCS CODES \(sorted, unique\):(.*?)(?=COMPLETE PRODUCT LIST|$)\<close> with \<open>re.DOTALL\<close>\<close>
  "hcpcs_section_pattern =
     seq [Lit ''ALL HCPCS CODES (sorted, unique):'', Grp 1 (Rep Lazy any_char 0 None),
          Ahead (Alt (Lit ''COMPLETE PRODUCT LIST'') Eos)]"

definition product_section_pattern :: rx where
  \<comment> \<open>\<open>COMPLETE PRODUCT LIST:(.*?)(?=\n\n\n|$)\<close> with \<open>re.DOTALL\<close>\<close>
  "product_section_pattern =
     seq [Lit ''COMPLETE PRODUCT LIST:'', Grp 1 (Rep Lazy any_char 0 None),
          Ahead (Alt (Lit ''\<newline>\<newline>\<newline>'') Eos)]"

definition product_line_pattern :: rx where
  \<comment> \<open>\<open>\s*\d+\.\s+\[([^\]]+)\]\s+(.+)\<close>\<close>
  "product_line_pattern =
     seq [Rep Greedy is_space 0 None, Rep Greedy is_digit 1 None, Lit ''.'',
          Rep Greedy is_space 1 None, Lit ''['', Grp 1 (Rep Greedy (not_char CHR '']'') 1 None),
          Lit '']'', Rep Greedy is_space 1 None, Grp 2 (Rep Greedy (not_char CHR 0x0A) 1 None)]"

definition section_lines :: "rx \<Rightarrow> string \<Rightarrow> string list" where
  \<comment> \<open>\<open>section.group(1).strip().split('\n')\<close> when the section is found, no line otherwise\<close>
  "section_lines pattern file_content =
     (case search pattern file_content of
        None \<Rightarrow> []
      | Some section \<Rightarrow> str_split ''\<newline>'' (strip (group section 1)))"

definition parse_categories :: "string \<Rightarrow> string list" where
  "parse_categories file_content =
     concat (map (\<lambda>line. case re_match category_line_pattern line of
                           None \<Rightarrow> []
                         | Some mo \<Rightarrow> [strip (group mo 1)])
                 (section_lines categories_pattern file_content))"

definition parse_hcpcs_codes :: "string \<Rightarrow> string list" where
  "parse_hcpcs_codes file_content =
     filter (\<lambda>code. code \<noteq> [] \<and> \<not> starts_with ''='' code)
            (map strip (section_lines hcpcs_section_pattern file_content))"

definition parse_products :: "string \<Rightarrow> product list" where
  "parse_products file_content =
     concat (map (\<lambda>line. case re_match product_line_pattern line of
                           None \<Rightarrow> []
                         | Some mo \<Rightarrow> [\<lparr> name = Some (strip (group mo 2)),
                                         hcpcs = Some (strip (group mo 1)) \<rparr>])
                 (section_lines product_section_pattern file_content))"

definition parse_section :: "string \<Rightarrow> inventory" where
  \<comment> \<open>the body of the loop over the sections: the entry of one file\<close>
  "parse_section file_content =
     (let stats_match = search statistics_pattern file_content;
          categories = parse_categories file_content;
          hcpcs_codes = parse_hcpcs_codes file_content;
          products = parse_products file_content
      in \<lparr> num_categories = (case stats_match of
                                Some sm \<Rightarrow> int_of_digits (group sm 1)
                              | None \<Rightarrow> int (length categories)),
           num_products = (case stats_match of
                              Some sm \<Rightarrow> int_of_digits (group sm 2)
                            | None \<Rightarrow> int (length products)),
           num_unique_hcpcs = Some (case stats_match of
                                      Some sm \<Rightarrow> int_of_digits (group sm 3)
                                    | None \<Rightarrow> int (length (remdups hcpcs_codes))),
           categories = categories,
           hcpcs_codes = Some hcpcs_codes,
           products = products \<rparr>)"

fun section_pairs :: "string list \<Rightarrow> (string \<times> string) list" where
  \<comment> \<open>\<open>(file_sections[i], file_sections[i + 1])\<close> for \<open>i\<close> in \<open>range(1, len(file_sections), 2)\<close>,
      given \<open>file_sections[1:]\<close>; \<open>re.split\<close> returns an odd number of pieces\<close>
  "section_pairs (file_name # file_content # rest) = (file_name, file_content) # section_pairs rest"
| "section_pairs _ = []"

definition add_section :: "string \<times> string \<Rightarrow> (string \<rightharpoonup> inventory) \<Rightarrow> (string \<rightharpoonup> inventory)" where
  \<comment> \<open>\<open>files_data[file_name] = {...}\<close>\<close>
  "add_section p files_data = files_data(fst p \<mapsto> parse_section (snd p))"

definition parse_inventory_before :: "string \<Rightarrow> (string \<rightharpoonup> inventory)" where
  \<comment> \<open>on the content of the file, which \<open>main\<close> reads\<close>
  "parse_inventory_before content =
     fold add_section (section_pairs (tl (re_split section_pattern content))) Map.empty"

section \<open>The comparator: \<open>compare_inventories\<close>\<close>

definition product_codes :: "product list \<Rightarrow> string list" where
  \<comment> \<open>\<open>[p['hcpcs'] for p in products if 'hcpcs' in p]\<close>\<close>
  "product_codes ps = List.map_filter hcpcs ps"

definition index_step :: "product \<Rightarrow> (string \<times> product) list \<Rightarrow> (string \<times> product) list" where
  \<comment> \<open>one item of the dict comprehension below: \<open>d[p['name'].upper()] = p\<close>, skipped when
      \<open>p\<close> has no \<open>'name'\<close>\<close>
  "index_step p d = (case name p of Some n \<Rightarrow> AList.update (upper n) p d | None \<Rightarrow> d)"

definition name_index :: "product list \<Rightarrow> (string \<times> product) list" where
  \<comment> \<open>\<open>{p['name'].upper(): p for p in products if 'name' in p}\<close>: a dict in insertion order,
      a later product replacing an earlier one under the same key. On the before side every
      product has a name when this is reached (\<open>p['name']\<close> has raised otherwise).\<close>
  "name_index ps = fold index_step ps []"

definition sorted_diff :: "string list \<Rightarrow> string list \<Rightarrow> string list" where
  \<comment> \<open>\<open>sorted(set(xs) - set(ys))\<close>\<close>
  "sorted_diff xs ys = sorted_list_of_set (set xs - set ys)"

definition names_at :: "(string \<times> product) list \<Rightarrow> string list \<Rightarrow> string list" where
  \<comment> \<open>\<open>[d[k]['name'] for k in keys]\<close>; every key is a key of \<open>d\<close> where this is used\<close>
  "names_at d ks = List.map_filter (\<lambda>k. Option.bind (map_of d k) name) ks"

definition compare_inventories :: "inventory \<Rightarrow> inventory \<Rightarrow> string \<Rightarrow> py_error + comparison" where
  "compare_inventories before_data after_data file_name =
     (case hcpcs_codes before_data of
        None \<Rightarrow> Inl (KeyError ''hcpcs_codes'')
      | Some before_codes \<Rightarrow>
          if \<exists>p \<in> set (products before_data). name p = None then Inl (KeyError ''name'')
          else
            let cats = (num_categories before_data = num_categories after_data);
                prods = (num_products before_data = num_products after_data);
                after_hcpcs = product_codes (products after_data);
                miss_h = sorted_diff before_codes after_hcpcs;
                extra_h = sorted_diff after_hcpcs before_codes;
                before_products = name_index (products before_data);
                after_products = name_index (products after_data);
                miss_p = names_at before_products
                           (sorted_diff (map fst before_products) (map fst after_products));
                extra_p = names_at after_products
                           (sorted_diff (map fst after_products) (map fst before_products))
            in Inr \<lparr> file_key = file_name,
                     categories_match = cats,
                     products_match = prods,
                     missing_categories = [],
                     missing_hcpcs = miss_h,
                     missing_products = miss_p,
                     extra_categories = [],
                     extra_hcpcs = extra_h,
                     extra_products = extra_p,
                     before_num_categories = num_categories before_data,
                     after_num_categories = num_categories after_data,
                     before_num_products = num_products before_data,
                     after_num_products = num_products after_data,
                     all_match = (cats \<and> prods \<and> length miss_h = 0 \<and> length extra_h = 0
                                  \<and> length miss_p = 0 \<and> length extra_p = 0) \<rparr>)"

section \<open>The reporter: \<open>generate_report\<close>\<close>

text \<open>
  The report holds three characters outside ASCII; they are written as their UTF-8 bytes,
  and \<open>len\<close> and the padding of a format specification count code points, not bytes.
\<close>

definition check_mark :: string where
  \<comment> \<open>U+2713\<close>
  "check_mark = [CHR 0xE2, CHR 0x9C, CHR 0x93]"

definition cross_mark :: string where
  \<comment> \<open>U+2717\<close>
  "cross_mark = [CHR 0xE2, CHR 0x9C, CHR 0x97]"

definition bullet :: string where
  \<comment> \<open>U+2022\<close>
  "bullet = [CHR 0xE2, CHR 0x80, CHR 0xA2]"

definition is_continuation :: "char \<Rightarrow> bool" where
  \<comment> \<open>a byte \<open>10xxxxxx\<close>, inside the UTF-8 sequence of one code point\<close>
  "is_continuation c = (128 \<le> (of_char c :: nat) \<and> (of_char c :: nat) < 192)"

definition py_len :: "string \<Rightarrow> nat" where
  \<comment> \<open>\<open>len(s)\<close>: the number of code points\<close>
  "py_len s = length (filter (\<lambda>c. \<not> is_continuation c) s)"

definition ljust :: "nat \<Rightarrow> string \<Rightarrow> string" where
  \<comment> \<open>the format specification \<open>{s:<w}\<close>\<close>
  "ljust w s = s @ replicate (w - py_len s) CHR '' ''"

fun digits :: "nat \<Rightarrow> string" where
  "digits n =
     (if n < 10 then [''0123456789'' ! n]
      else digits (n div 10) @ [''0123456789'' ! (n mod 10)])"

definition int_str :: "int \<Rightarrow> string" where
  \<comment> \<open>\<open>str(i)\<close>, which is also the format \<open>{i}\<close> of an integer\<close>
  "int_str i = (if i < 0 then CHR ''-'' # digits (nat (- i)) else digits (nat i))"

definition join_lines :: "string list \<Rightarrow> string" where
  \<comment> \<open>\<open>'\n'.join(lines)\<close>\<close>
  "join_lines ls = (case ls of [] \<Rightarrow> [] | l # rest \<Rightarrow> l @ concat (map (\<lambda>x. CHR 0x0A # x) rest))"

definition report_head :: "string list" where
  "report_head =
     [replicate 80 CHR ''='',
      ''INVENTORY VALIDATION REPORT'',
      ''Generated: 2025-10-28'',
      replicate 80 CHR ''='',
      '''',
      ''PURPOSE:'',
      ''  Verify that simplification process only removed ICD-10 codes,'',
      ''  clinical indications, and documentation requirements while'',
      ''  preserving all categories, products, and HCPCS codes.'',
      '''',
      replicate 80 CHR ''='',
      ''OVERALL SUMMARY'',
      replicate 80 CHR ''='',
      '''']"

definition summary_lines :: "comparison list \<Rightarrow> string list" where
  "summary_lines comparisons =
     (let total_before_categories = sum_list (map before_num_categories comparisons);
          total_after_categories = sum_list (map after_num_categories comparisons);
          total_before_products = sum_list (map before_num_products comparisons);
          total_after_products = sum_list (map after_num_products comparisons);
          all_pass = list_all all_match comparisons
      in [''  Total Files Processed: 7'',
          ''  Total Categories (Before): '' @ int_str total_before_categories,
          ''  Total Categories (After):  '' @ int_str total_after_categories,
          ''  Total Products (Before):   '' @ int_str total_before_products,
          ''  Total Products (After):    '' @ int_str total_after_products,
          '''',
          ''  Overall Status: '' @ (if all_pass then ''PASS'' else ''FAIL''),
          '''']
         @ (if all_pass then
              [''  '' @ check_mark @ '' All categories preserved'',
               ''  '' @ check_mark @ '' All products preserved'',
               ''  '' @ check_mark @ '' All HCPCS codes preserved'',
               ''  '' @ check_mark @ '' Validation successful!'']
            else
              [''  '' @ cross_mark @ '' Issues found - see detailed comparison below''])
         @ ['''',
            replicate 80 CHR ''='',
            ''DETAILED FILE-BY-FILE COMPARISON'',
            replicate 80 CHR ''='',
            ''''])"

definition counts_lines :: "comparison \<Rightarrow> string list" where
  "counts_lines c =
     (let cat_status = (if categories_match c then check_mark @ '' MATCH'' else cross_mark @ '' MISMATCH'');
          prod_status = (if products_match c then check_mark @ '' MATCH'' else cross_mark @ '' MISMATCH'')
      in [replicate 80 CHR ''-'',
          ''FILE: '' @ file_key c,
          replicate 80 CHR ''-'',
          '''',
          ''  COUNTS COMPARISON:'',
          ''    '' @ ljust 30 ''Metric'' @ '' '' @ ljust 10 ''Before'' @ '' '' @ ljust 10 ''After''
             @ '' '' @ ljust 10 ''Status'',
          ''    '' @ replicate 30 CHR ''-'' @ '' '' @ replicate 10 CHR ''-'' @ '' ''
             @ replicate 10 CHR ''-'' @ '' '' @ replicate 10 CHR ''-'',
          ''    '' @ ljust 30 ''Categories'' @ '' '' @ ljust 10 (int_str (before_num_categories c))
             @ '' '' @ ljust 10 (int_str (after_num_categories c)) @ '' '' @ ljust 10 cat_status,
          ''    '' @ ljust 30 ''Products'' @ '' '' @ ljust 10 (int_str (before_num_products c))
             @ '' '' @ ljust 10 (int_str (after_num_products c)) @ '' '' @ ljust 10 prod_status,
          ''''])"

definition missing_hcpcs_lines :: "comparison \<Rightarrow> string list" where
  "missing_hcpcs_lines c =
     (if missing_hcpcs c \<noteq> [] then
        [''  '' @ cross_mark @ '' MISSING HCPCS CODES ('' @ int_str (int (length (missing_hcpcs c))) @ ''):'']
        @ map (\<lambda>code. ''    - '' @ code) (missing_hcpcs c)
        @ ['''']
      else [])"

definition extra_hcpcs_lines :: "comparison \<Rightarrow> string list" where
  "extra_hcpcs_lines c =
     (if extra_hcpcs c \<noteq> [] then
        [''  ! EXTRA HCPCS CODES ('' @ int_str (int (length (extra_hcpcs c))) @ ''):'']
        @ map (\<lambda>code. ''    - '' @ code) (extra_hcpcs c)
        @ ['''']
      else [])"

definition missing_products_lines :: "comparison \<Rightarrow> string list" where
  "missing_products_lines c =
     (if missing_products c \<noteq> [] then
        [''  '' @ cross_mark @ '' MISSING PRODUCTS ('' @ int_str (int (length (missing_products c))) @ ''):'']
        @ map (\<lambda>prod. ''    - '' @ prod) (take 10 (missing_products c))
        @ (if length (missing_products c) > 10
           then [''    ... and '' @ int_str (int (length (missing_products c)) - 10) @ '' more'']
           else [])
        @ ['''']
      else [])"

definition extra_products_lines :: "comparison \<Rightarrow> string list" where
  "extra_products_lines c =
     (if extra_products c \<noteq> [] then
        [''  ! EXTRA PRODUCTS ('' @ int_str (int (length (extra_products c))) @ ''):'']
        @ map (\<lambda>prod. ''    - '' @ prod) (take 10 (extra_products c))
        @ (if length (extra_products c) > 10
           then [''    ... and '' @ int_str (int (length (extra_products c)) - 10) @ '' more'']
           else [])
        @ ['''']
      else [])"

definition file_lines :: "comparison \<Rightarrow> string list" where
  \<comment> \<open>the body of the loop over the comparisons\<close>
  "file_lines c =
     (let has_issues = (missing_hcpcs c \<noteq> [] \<or> extra_hcpcs c \<noteq> []
                        \<or> missing_products c \<noteq> [] \<or> extra_products c \<noteq> [])
      in counts_lines c
         @ missing_hcpcs_lines c
         @ extra_hcpcs_lines c
         @ missing_products_lines c
         @ extra_products_lines c
         @ (if \<not> has_issues then
              [''  '' @ check_mark @ '' NO ISSUES FOUND'',
               ''  '' @ check_mark @ '' All categories preserved'',
               ''  '' @ check_mark @ '' All products preserved'',
               ''  '' @ check_mark @ '' All HCPCS codes preserved'',
               '''']
            else [])
         @ [''  File Status: '' @ (if all_match c then ''PASS'' else ''FAIL''),
            ''''])"

definition conclusion_lines :: "comparison list \<Rightarrow> string list" where
  "conclusion_lines comparisons =
     [replicate 80 CHR ''='',
      ''VALIDATION CONCLUSION'',
      replicate 80 CHR ''='',
      '''']
     @ (if list_all all_match comparisons then
          [''  '' @ check_mark @ check_mark @ check_mark @ '' VALIDATION PASSED ''
              @ check_mark @ check_mark @ check_mark,
           '''',
           ''  The simplification process successfully:'',
           ''  '' @ bullet @ '' Preserved all categories'',
           ''  '' @ bullet @ '' Preserved all products'',
           ''  '' @ bullet @ '' Preserved all HCPCS codes'',
           ''  '' @ bullet @ '' Maintained data integrity'',
           '''',
           ''  Only ICD-10 codes, clinical indications, and documentation'',
           ''  requirements were removed as intended.'']
        else
          [''  '' @ cross_mark @ cross_mark @ cross_mark @ '' VALIDATION FAILED ''
              @ cross_mark @ cross_mark @ cross_mark,
           '''',
           ''  Issues were found during validation.'',
           ''  Please review the detailed comparison above.''])
     @ ['''',
        replicate 80 CHR ''='']"

definition generate_report ::
  "(string \<rightharpoonup> inventory) \<Rightarrow> (string \<rightharpoonup> inventory) \<Rightarrow> comparison list \<Rightarrow> string" where
  "generate_report before_inventory after_inventory comparisons =
     join_lines (report_head @ summary_lines comparisons
                 @ concat (map file_lines comparisons)
                 @ conclusion_lines comparisons)"

section \<open>The job: \<open>main\<close> of \<open>validate_inventory.py\<close>\<close>

text \<open>
  The files are a map from path to content. Reading a path that is not there raises; no
  function of \<open>validate_inventory.py\<close> catches an exception, so the first one raised ends
  \<open>main\<close>, before the report is written. What \<open>main\<close> prints is not modelled.
\<close>

type_synonym filesystem = "string \<rightharpoonup> string"

definition read_file :: "filesystem \<Rightarrow> string \<Rightarrow> py_error + string" where
  "read_file fs path = (case fs path of None \<Rightarrow> Inl (FileNotFoundError path) | Some content \<Rightarrow> Inr content)"

definition base_path :: string where
  "base_path = ''/home/user/simplifiedcodecatalog''"

definition under_base :: "string \<Rightarrow> string" where
  \<comment> \<open>\<open>base_path / name\<close>\<close>
  "under_base file = base_path @ ''/'' @ file"

definition html_files :: "string list" where
  "html_files =
     [''catalog_diabetic_hospital.html'',
      ''catalog_mobility_aids.html'',
      ''catalog_orthotic_prosthetic.html'',
      ''catalog_patient_care.html'',
      ''catalog_specialized.html'',
      ''catalog_surgical_dressings.html'',
      ''catalog_therapeutic.html'']"

fun parse_all :: "filesystem \<Rightarrow> string list \<Rightarrow> (string \<rightharpoonup> inventory) \<Rightarrow> py_error + (string \<rightharpoonup> inventory)" where
  \<comment> \<open>the loop that fills \<open>after_inventory\<close>\<close>
  "parse_all fs [] after_inventory = Inr after_inventory"
| "parse_all fs (html_file # rest) after_inventory =
     (case read_file fs (under_base html_file) of
        Inl e \<Rightarrow> Inl e
      | Inr content \<Rightarrow> parse_all fs rest (after_inventory(html_file \<mapsto> parse_html_file content)))"

fun compare_all ::
  "(string \<rightharpoonup> inventory) \<Rightarrow> (string \<rightharpoonup> inventory) \<Rightarrow> string list \<Rightarrow> py_error + comparison list" where
  \<comment> \<open>the loop that fills \<open>comparisons\<close>; \<open>before_inventory[html_file]\<close> is evaluated first\<close>
  "compare_all before_inventory after_inventory [] = Inr []"
| "compare_all before_inventory after_inventory (html_file # rest) =
     (case before_inventory html_file of
        None \<Rightarrow> Inl (KeyError html_file)
      | Some before_data \<Rightarrow>
          (case after_inventory html_file of
             None \<Rightarrow> Inl (KeyError html_file)
           | Some after_data \<Rightarrow>
               (case compare_inventories before_data after_data html_file of
                  Inl e \<Rightarrow> Inl e
                | Inr comparison \<Rightarrow>
                    (case compare_all before_inventory after_inventory rest of
                       Inl e \<Rightarrow> Inl e
                     | Inr comparisons \<Rightarrow> Inr (comparison # comparisons)))))"

definition main :: "filesystem \<Rightarrow> py_error + (filesystem \<times> int)" where
  \<comment> \<open>the files after the run and the exit status, or the exception that ended the run\<close>
  "main fs =
     (case read_file fs (under_base ''inventory_before.txt'') of
        Inl e \<Rightarrow> Inl e
      | Inr before_content \<Rightarrow>
          let before_inventory = parse_inventory_before before_content
          in (case parse_all fs html_files Map.empty of
                Inl e \<Rightarrow> Inl e
              | Inr after_inventory \<Rightarrow>
                  (case compare_all before_inventory after_inventory html_files of
                     Inl e \<Rightarrow> Inl e
                   | Inr comparisons \<Rightarrow>
                       let report = generate_report before_inventory after_inventory comparisons;
                           all_pass = list_all all_match comparisons
                       in Inr (fs(under_base ''validation_report.txt'' \<mapsto> report),
                               if all_pass then 0 else 1))))"

section \<open>\<open>simplify_catalogs.py\<close>\<close>

definition icd10_row_pattern :: rx where
  \<comment> \<open>\<open><div class="code-row">\s*<div class="code-label">ICD-10 Codes</div>.*?</div>\s*</div>\<close>
      with \<open>re.DOTALL\<close>\<close>
  \<open>icd10_row_pattern =
     seq [Lit ''<div class="code-row">'', Rep Greedy is_space 0 None,
          Lit ''<div class="code-label">ICD-10 Codes</div>'', Rep Lazy any_char 0 None,
          Lit ''</div>'', Rep Greedy is_space 0 None, Lit ''</div>'']\<close>

definition clinical_box_pattern :: rx where
  \<comment> \<open>\<open><div class="clinical-box">.*?</div>\<close> with \<open>re.DOTALL\<close>\<close>
  \<open>clinical_box_pattern =
     seq [Lit ''<div class="clinical-box">'', Rep Lazy any_char 0 None, Lit ''</div>'']\<close>

definition med_necessity_pattern :: rx where
  \<comment> \<open>\<open><div class="med-necessity">.*?</div>\<close> with \<open>re.DOTALL\<close>\<close>
  \<open>med_necessity_pattern =
     seq [Lit ''<div class="med-necessity">'', Rep Lazy any_char 0 None, Lit ''</div>'']\<close>

definition clinical_box_css_pattern :: rx where
  \<comment> \<open>\<open>\.clinical-box\s*\{[^}]*\}\<close>\<close>
  "clinical_box_css_pattern =
     seq [Lit ''.clinical-box'', Rep Greedy is_space 0 None, Lit ''{'',
          Rep Greedy (not_char CHR ''}'') 0 None, Lit ''}'']"

definition med_necessity_css_pattern :: rx where
  \<comment> \<open>\<open>\.med-necessity\s*\{[^}]*\}\<close>\<close>
  "med_necessity_css_pattern =
     seq [Lit ''.med-necessity'', Rep Greedy is_space 0 None, Lit ''{'',
          Rep Greedy (not_char CHR ''}'') 0 None, Lit ''}'']"

definition padding_pattern :: rx where
  \<comment> \<open>\<open>(\.product-card\s*\{[^}]*padding:\s*)\d+px\<close>\<close>
  "padding_pattern =
     seq [Grp 1 (seq [Lit ''.product-card'', Rep Greedy is_space 0 None, Lit ''{'',
                      Rep Greedy (not_char CHR ''}'') 0 None, Lit ''padding:'',
                      Rep Greedy is_space 0 None]),
          Rep Greedy is_digit 1 None, Lit ''px'']"

definition page_break_pattern :: rx where
  \<comment> \<open>\<open>(\.product-card\s*\{[^}]*)(page-break-inside:\s*[^;]+;)\<close>\<close>
  "page_break_pattern =
     seq [Grp 1 (seq [Lit ''.product-card'', Rep Greedy is_space 0 None, Lit ''{'',
                      Rep Greedy (not_char CHR ''}'') 0 None]),
          Grp 2 (seq [Lit ''page-break-inside:'', Rep Greedy is_space 0 None,
                      Rep Greedy (not_char CHR '';'') 1 None, Lit '';''])]"

definition product_card_rule_pattern :: rx where
  \<comment> \<open>\<open>\.product-card\s*\{[^}]*\}\<close>\<close>
  "product_card_rule_pattern =
     seq [Lit ''.product-card'', Rep Greedy is_space 0 None, Lit ''{'',
          Rep Greedy (not_char CHR ''}'') 0 None, Lit ''}'']"

definition product_card_open_pattern :: rx where
  \<comment> \<open>\<open>(\.product-card\s*\{)\<close>\<close>
  "product_card_open_pattern =
     Grp 1 (seq [Lit ''.product-card'', Rep Greedy is_space 0 None, Lit ''{''])"

definition blank_lines_pattern :: rx where
  \<comment> \<open>\<open>\n\s*\n\s*\n+\<close>\<close>
  "blank_lines_pattern =
     seq [Lit ''\<newline>'', Rep Greedy is_space 0 None, Lit ''\<newline>'', Rep Greedy is_space 0 None,
          Rep Greedy (\<lambda>c. c = CHR 0x0A) 1 None]"

definition remove_sections :: "string \<Rightarrow> string" where
  \<comment> \<open>the seven substitutions before the search for the \<open>.product-card\<close> rule\<close>
  "remove_sections content =
     (let c1 = re_sub icd10_row_pattern (\<lambda>mo. []) content;
          c2 = re_sub clinical_box_pattern (\<lambda>mo. []) c1;
          c3 = re_sub med_necessity_pattern (\<lambda>mo. []) c2;
          c4 = re_sub clinical_box_css_pattern (\<lambda>mo. []) c3;
          c5 = re_sub med_necessity_css_pattern (\<lambda>mo. []) c4;
          c6 = re_sub padding_pattern (\<lambda>mo. group mo 1 @ ''15px'') c5
      in re_sub page_break_pattern (\<lambda>mo. group mo 1 @ ''page-break-inside: avoid;'') c6)"

definition simplify_html :: "string \<Rightarrow> py_error + string" where
  \<comment> \<open>\<open>re.search\<close> returns \<open>None\<close> when nothing matches, and \<open>None.group(0)\<close> raises
      \<open>AttributeError\<close>\<close>
  "simplify_html content =
     (let c7 = remove_sections content
      in case search product_card_rule_pattern c7 of
           None \<Rightarrow> Inl AttributeError
         | Some rule \<Rightarrow>
             let c8 = (if \<not> contains ''page-break-inside'' (m_text rule)
                       then re_sub product_card_open_pattern
                              (\<lambda>mo. group mo 1 @ ''\<newline>            page-break-inside: avoid;'') c7
                       else c7)
             in Inr (re_sub blank_lines_pattern (\<lambda>mo. ''\<newline>\<newline>'') c8))"

definition process_file_body :: "filesystem \<Rightarrow> string \<Rightarrow> py_error + filesystem" where
  \<comment> \<open>the body of the \<open>try\<close>; the division for the printed reduction comes before the write\<close>
  "process_file_body fs filepath =
     (case read_file fs filepath of
        Inl e \<Rightarrow> Inl e
      | Inr content \<Rightarrow>
          let original_size = py_len content
          in (case simplify_html content of
                Inl e \<Rightarrow> Inl e
              | Inr simplified \<Rightarrow>
                  if original_size = 0 then Inl ZeroDivisionError
                  else Inr (fs(filepath \<mapsto> simplified))))"

definition process_file :: "filesystem \<Rightarrow> string \<Rightarrow> bool \<times> filesystem" where
  \<comment> \<open>\<open>except Exception\<close> catches every exception of the body and returns \<open>False\<close>\<close>
  "process_file fs filepath =
     (case process_file_body fs filepath of
        Inl e \<Rightarrow> (False, fs)
      | Inr fs' \<Rightarrow> (True, fs'))"

section \<open>Example snapshots\<close>

definition ex_before :: inventory where
  "ex_before = \<lparr> num_categories = 2, num_products = 2, num_unique_hcpcs = Some 2,
       categories = [''Mobility'', ''Diabetic''], hcpcs_codes = Some [''E0100'', ''E0130''],
       products = [\<lparr> name = Some ''Cane'', hcpcs = Some ''E0100'' \<rparr>,
                   \<lparr> name = Some ''Walker'', hcpcs = Some ''E0130'' \<rparr>] \<rparr>"

definition ex_after :: inventory where
  "ex_after = \<lparr> num_categories = 2, num_products = 1, num_unique_hcpcs = None,
       categories = [''Mobility'', ''Diabetic''], hcpcs_codes = None,
       products = [\<lparr> name = Some ''CANE'', hcpcs = Some ''E0100'' \<rparr>] \<rparr>"

definition ex_result :: comparison where
  "ex_result = \<lparr> file_key = ''catalog_mobility_aids.html'',
       categories_match = True, products_match = False,
       missing_categories = [], missing_hcpcs = [''E0130''], missing_products = [''Walker''],
       extra_categories = [], extra_hcpcs = [], extra_products = [],
       before_num_categories = 2, after_num_categories = 2,
       before_num_products = 2, after_num_products = 1, all_match = False \<rparr>"

definition listed_before :: inventory where
  "listed_before = \<lparr> num_categories = 1, num_products = 1, num_unique_hcpcs = Some 2,
       categories = [''Mobility''], hcpcs_codes = Some [''E0100'', ''E0130''],
       products = [\<lparr> name = Some ''Cane'', hcpcs = Some ''E0100'' \<rparr>] \<rparr>"

definition listed_after :: inventory where
  "listed_after = \<lparr> num_categories = 1, num_products = 1, num_unique_hcpcs = None,
       categories = [''Mobility''], hcpcs_codes = None,
       products = [\<lparr> name = Some ''Cane'', hcpcs = Some ''E0100'' \<rparr>] \<rparr>"







section \<open>Properties of the comparator\<close>

lemma set_sorted_diff: "set (sorted_diff xs ys) = set xs - set ys"
  by (simp add: sorted_diff_def)

lemma sorted_sorted_diff: "sorted (sorted_diff xs ys)"
  by (simp add: sorted_diff_def)

lemma distinct_sorted_diff: "distinct (sorted_diff xs ys)"
  by (simp add: sorted_diff_def)

lemma sorted_diff_Nil_iff: "sorted_diff xs ys = [] \<longleftrightarrow> set xs \<subseteq> set ys"
  by (metis set_sorted_diff Diff_eq_empty_iff set_empty)

lemma sorted_diff_code: "sorted_diff xs ys = sort (remdups (filter (\<lambda>x. x \<notin> set ys) xs))"
proof -
  have "set xs - set ys = set (filter (\<lambda>x. x \<notin> set ys) xs)" by auto
  then show ?thesis
    by (simp only: sorted_diff_def sorted_list_of_set_sort_remdups)
qed

lemma set_map_filter_iff: "y \<in> set (List.map_filter f xs) \<longleftrightarrow> (\<exists>x \<in> set xs. f x = Some y)"
  by (induction xs) (auto split: option.splits)

lemma set_product_codes: "set (product_codes ps) = {c. \<exists>p \<in> set ps. hcpcs p = Some c}"
  by (auto simp: product_codes_def set_map_filter_iff)






lemmas compare_eval = compare_inventories_def sorted_diff_code name_index_def index_step_def
  names_at_def product_codes_def upper_def upper_char_def Let_def

lemma ex_compare: "compare_inventories ex_before ex_after ''catalog_mobility_aids.html'' = Inr ex_result"
  by (simp add: compare_eval ex_before_def ex_after_def ex_result_def)

text \<open>
  Claim C9. Every result of \<open>compare_inventories\<close> has \<open>missing_categories\<close> and
  \<open>extra_categories\<close> equal to the empty list. Category names are never diffed: the result
  is the same whatever the two category lists are, and only the comparison of the two
  category counts (\<open>categories_match\<close>) can signal a category discrepancy.
\<close>

theorem compare_categories_never_diffed:
  assumes "compare_inventories b a f = Inr r"
  shows "missing_categories r = [] \<and> extra_categories r = []
       \<and> categories_match r = (num_categories b = num_categories a)
       \<and> compare_inventories (b\<lparr>categories := cb\<rparr>) (a\<lparr>categories := ca\<rparr>) f = Inr r"
  using assms
  by (auto simp: compare_inventories_def Let_def split: option.splits if_splits)

theorem compare_categories_never_diffed_witness:
  "compare_inventories ex_before ex_after ''catalog_mobility_aids.html'' = Inr ex_result
   \<and> missing_categories ex_result = [] \<and> extra_categories ex_result = []
   \<and> categories_match ex_result = (num_categories ex_before = num_categories ex_after)
   \<and> compare_inventories (ex_before\<lparr>categories := [''Diabetic'']\<rparr>) (ex_after\<lparr>categories := []\<rparr>)
         ''catalog_mobility_aids.html'' = Inr ex_result"
  using compare_categories_never_diffed [OF ex_compare, of "[''Diabetic'']" "[]"] ex_compare
  by simp

text \<open>
  Claim C1, as stated: the before-side code set is built from the codes of the before
  snapshot's products. It is not: \<open>compare_inventories\<close> reads the separately declared list
  \<open>before_data['hcpcs_codes']\<close>. When that list names \<open>E0130\<close> and no before product
  carries it, \<open>missing_hcpcs\<close> is \<open>['E0130']\<close>, while the difference of the two products'
  code sets is empty.
\<close>

theorem compare_codes_from_products_counterexample:
  "map_sum id missing_hcpcs (compare_inventories listed_before listed_after ''catalog_mobility_aids.html'')
     = Inr [''E0130'']
   \<and> sorted_list_of_set (set (product_codes (products listed_before))
                          - set (product_codes (products listed_after))) = []"
  by (simp add: compare_eval listed_before_def listed_after_def)

text \<open>
  Claim C1, amended: the before-side code set is the set of the before snapshot's declared
  code list \<open>hcpcs_codes\<close>, the after-side code set is the set of the codes attached to the
  after snapshot's products; \<open>missing_hcpcs\<close> is the before-minus-after difference and
  \<open>extra_hcpcs\<close> the after-minus-before difference, each a sorted sequence without
  repetition.
\<close>

theorem compare_code_sets:
  assumes "compare_inventories b a f = Inr r"
  shows "\<exists>cs. hcpcs_codes b = Some cs
       \<and> set (missing_hcpcs r) = set cs - {c. \<exists>p \<in> set (products a). hcpcs p = Some c}
       \<and> set (extra_hcpcs r) = {c. \<exists>p \<in> set (products a). hcpcs p = Some c} - set cs
       \<and> sorted (missing_hcpcs r) \<and> distinct (missing_hcpcs r)
       \<and> sorted (extra_hcpcs r) \<and> distinct (extra_hcpcs r)"
  using assms
  by (auto simp: compare_inventories_def Let_def set_sorted_diff set_product_codes
        sorted_sorted_diff distinct_sorted_diff split: option.splits if_splits)

theorem compare_code_sets_witness:
  "compare_inventories ex_before ex_after ''catalog_mobility_aids.html'' = Inr ex_result
   \<and> (\<exists>cs. hcpcs_codes ex_before = Some cs
       \<and> set (missing_hcpcs ex_result) = set cs - {c. \<exists>p \<in> set (products ex_after). hcpcs p = Some c}
       \<and> set (extra_hcpcs ex_result) = {c. \<exists>p \<in> set (products ex_after). hcpcs p = Some c} - set cs
       \<and> sorted (missing_hcpcs ex_result) \<and> distinct (missing_hcpcs ex_result)
       \<and> sorted (extra_hcpcs ex_result) \<and> distinct (extra_hcpcs ex_result))"
  using compare_code_sets [OF ex_compare] ex_compare by blast

text \<open>
  Claim C2, as stated: comparing a snapshot with itself gives \<open>all_match\<close> and four empty
  difference lists. A snapshot whose declared code list names a code that none of its
  products carries is a counterexample: the code is reported missing.
\<close>

theorem compare_self_counterexample:
  "map_sum id (\<lambda>r. (all_match r, missing_hcpcs r))
      (compare_inventories listed_before listed_before ''catalog_mobility_aids.html'')
     = Inr (False, [''E0130''])"
  by (simp add: compare_eval listed_before_def)

text \<open>
  Claim C2, amended: for every snapshot \<open>S\<close> that has a declared code list whose set of codes
  is the set of the codes of its products, and whose products all have a name,
  \<open>compare_inventories S S\<close> returns a result with \<open>all_match\<close> true and the four difference
  lists empty.
\<close>

lemma names_at_self: "names_at d (sorted_diff ks ks) = []"
  by (simp add: sorted_diff_def names_at_def)

theorem compare_self:
  assumes "hcpcs_codes S = Some cs"
    and "\<forall>p \<in> set (products S). name p \<noteq> None"
    and "set cs = set (product_codes (products S))"
  shows "\<exists>r. compare_inventories S S f = Inr r \<and> all_match r
           \<and> missing_hcpcs r = [] \<and> extra_hcpcs r = []
           \<and> missing_products r = [] \<and> extra_products r = []"
  using assms
  by (simp add: compare_inventories_def Let_def names_at_self sorted_diff_Nil_iff)

theorem compare_self_witness:
  "hcpcs_codes ex_before = Some [''E0100'', ''E0130'']
   \<and> map name (products ex_before) = [Some ''Cane'', Some ''Walker'']
   \<and> set [''E0100'', ''E0130''] = set (product_codes (products ex_before))
   \<and> (\<exists>r. compare_inventories ex_before ex_before ''catalog_mobility_aids.html'' = Inr r \<and> all_match r
           \<and> missing_hcpcs r = [] \<and> extra_hcpcs r = []
           \<and> missing_products r = [] \<and> extra_products r = [])"
proof -
  have h1: "hcpcs_codes ex_before = Some [''E0100'', ''E0130'']"
    by (simp add: ex_before_def)
  have h2: "\<forall>p \<in> set (products ex_before). name p \<noteq> None"
    by (simp add: ex_before_def)
  have h3: "set [''E0100'', ''E0130''] = set (product_codes (products ex_before))"
    by (simp add: ex_before_def product_codes_def)
  have h4: "map name (products ex_before) = [Some ''Cane'', Some ''Walker'']"
    by (simp add: ex_before_def)
  from compare_self [OF h1 h2 h3] h1 h3 h4 show ?thesis by blast
qed






section \<open>Properties of the reporter\<close>

lemma capped_nth_11:
  assumes "length xs = 15"
  shows "([h] @ map f (take 10 xs) @ [m, e]) ! 11 = m"
  using assms by (simp add: nth_append)




end
